theory Spec2Isabelle
  imports Complex_Main "HOL-Library.AList"
begin

section \<open>Commodities, FX and compliance carbon dashboard\<close>

text \<open>
  A shallow embedding of \<^verbatim>\<open>commodities_dashboard.py\<close>: the source fetcher
  (\<^verbatim>\<open>fetch_yfinance\<close>, \<^verbatim>\<open>fetch_all_data\<close>), the summary builder
  (\<^verbatim>\<open>summary_from_yf_dict\<close>), the currency conversion
  (\<^verbatim>\<open>compliance_summary_table\<close>) and the snapshot generator
  (\<^verbatim>\<open>generate_pdf_snapshot\<close>).

  Conventions of the embedding.
  \<^item> A Python \<^verbatim>\<open>dict\<close> is an association list in insertion order; an assignment
    \<^verbatim>\<open>d[k] = v\<close> is \<open>AList.update\<close> (an existing key keeps its position, a new key
    is appended), a lookup is \<open>map_of\<close>.
  \<^item> A Python \<^verbatim>\<open>str\<close> is the list of the bytes of its UTF-8 encoding, so that
    \<^verbatim>\<open>a in b\<close> on strings is containment of a contiguous block of bytes.
  \<^item> A Python \<^verbatim>\<open>float\<close> is a binary64 number, an infinity or NaN; the two signed
    zeros are one value. Arithmetic rounds the exact result to the nearest binary64
    number, ties to even, as IEEE 754 prescribes and CPython does.
  \<^item> \<^verbatim>\<open>pd.DataFrame(rows)\<close> is the list of the row dicts; in the frame pandas stores
    \<^verbatim>\<open>None\<close> and NaN alike as the missing value (\<open>pd_isna\<close>).
  \<^item> \<^verbatim>\<open>yf.download\<close> and \<^verbatim>\<open>DataFrame.dropna\<close> are library calls; the functions
    that use them take them as parameters.
  \<^item> The decorator \<^verbatim>\<open>st.cache_data(ttl=1800)\<close> is not modelled: with the download
    passed in as a function, memoisation does not change any returned value.
\<close>

subsection \<open>Strings\<close>

text \<open>\<^verbatim>\<open>s in t\<close> for two strings.\<close>

fun str_in :: "string \<Rightarrow> string \<Rightarrow> bool" where
  "str_in s [] = (s = [])"
| "str_in s (c # cs) = (take (length s) (c # cs) = s \<or> str_in s cs)"

text \<open>
  The two unit tags of the catalog that are not ASCII, byte for byte as the source file
  spells them: the unit of \<^verbatim>\<open>UK ETS\<close> and the tag tested at line 206 are the bytes
  \<^verbatim>\<open>C2 AC C2 A3\<close> (the pound tag), the unit of \<^verbatim>\<open>EU ETS (EUA)\<close> starts with the bytes
  \<^verbatim>\<open>E2 80 9A C3 87 C2 A8\<close> (the euro tag).
\<close>

definition pound_tag :: string where
  "pound_tag = [CHR 0xC2, CHR 0xAC, CHR 0xC2, CHR 0xA3]"

definition euro_tag :: string where
  "euro_tag = [CHR 0xE2, CHR 0x80, CHR 0x9A, CHR 0xC3, CHR 0x87, CHR 0xC2, CHR 0xA8]"

subsection \<open>Errors\<close>

text \<open>The exceptions the modelled functions can raise.\<close>

datatype error = IndexError | ZeroDivisionError | ValueError | OverflowError

subsection \<open>Floats\<close>

text \<open>
  A \<^verbatim>\<open>float\<close>: a finite binary64 number (its exact value), an infinity or NaN. Values
  read from a frame are arbitrary values of this type; every operation below returns a
  binary64 number.
\<close>

datatype pyfloat = Fin real | PInf | NInf | NaN

text \<open>\<^verbatim>\<open>int.bit_length\<close>\<close>

fun bit_length :: "nat \<Rightarrow> nat" where
  "bit_length n = (if n = 0 then 0 else Suc (bit_length (n div 2)))"

declare bit_length.simps [simp del]

text \<open>The nearest integer, a tie going to the even neighbour.\<close>

definition round_half_even :: "real \<Rightarrow> int" where
  "round_half_even x =
     (let f = \<lfloor>x\<rfloor>; d = x - of_int f
      in if d < 1 / 2 then f else if 1 / 2 < d then f + 1 else if even f then f else f + 1)"

text \<open>
  Rounding a real number to binary64. With \<^verbatim>\<open>2^e <= |x| < 2^(e+1)\<close> the result is the
  multiple of \<^verbatim>\<open>2^(e-52)\<close> nearest to \<open>x\<close> (53 significant bits), ties to even; below
  \<^verbatim>\<open>2^(-1022)\<close> the spacing stays \<^verbatim>\<open>2^(-1074)\<close> (subnormal numbers); a result of
  \<^verbatim>\<open>2^1024\<close> or more is an infinity. The exponent \<open>e\<close> is read off the bit length of
  the floor of \<open>|x|\<close> when \<open>|x|\<close> is at least 1, and of the ceiling of \<open>1/|x|\<close> less
  one otherwise.
\<close>

definition binary64 :: "real \<Rightarrow> pyfloat" where
  "binary64 x =
     (if x = 0 then Fin 0
      else
        let ax = \<bar>x\<bar>;
            e = (if 1 \<le> ax then int (bit_length (nat \<lfloor>ax\<rfloor>)) - 1
                 else - int (bit_length (nat (\<lceil>1 / ax\<rceil> - 1))));
            s = 52 - max e (- 1022);
            m = (if 0 \<le> s then round_half_even (ax * 2 ^ nat s)
                 else round_half_even (ax / 2 ^ nat (- s)));
            y = (if 0 \<le> s then of_int m / 2 ^ nat s else of_int m * 2 ^ nat (- s))
        in if 1024 \<le> e \<or> (e = 1023 \<and> 2 ^ 53 \<le> m) then (if 0 < x then PInf else NInf)
           else Fin (if 0 < x then y else - y))"

definition py_sign :: "pyfloat \<Rightarrow> int" where
  "py_sign a =
     (case a of Fin x \<Rightarrow> (if 0 < x then 1 else if x < 0 then - 1 else 0)
      | PInf \<Rightarrow> 1 | NInf \<Rightarrow> - 1 | NaN \<Rightarrow> 0)"

text \<open>\<^verbatim>\<open>a - b\<close>\<close>

definition py_sub :: "pyfloat \<Rightarrow> pyfloat \<Rightarrow> pyfloat" where
  "py_sub a b =
     (case (a, b) of
        (Fin x, Fin y) \<Rightarrow> binary64 (x - y)
      | (NaN, _) \<Rightarrow> NaN
      | (_, NaN) \<Rightarrow> NaN
      | (PInf, PInf) \<Rightarrow> NaN
      | (NInf, NInf) \<Rightarrow> NaN
      | (PInf, _) \<Rightarrow> PInf
      | (NInf, _) \<Rightarrow> NInf
      | (_, PInf) \<Rightarrow> NInf
      | (_, NInf) \<Rightarrow> PInf)"

text \<open>\<^verbatim>\<open>a * b\<close>\<close>

definition py_mul :: "pyfloat \<Rightarrow> pyfloat \<Rightarrow> pyfloat" where
  "py_mul a b =
     (case (a, b) of
        (Fin x, Fin y) \<Rightarrow> binary64 (x * y)
      | (NaN, _) \<Rightarrow> NaN
      | (_, NaN) \<Rightarrow> NaN
      | _ \<Rightarrow> (if py_sign a * py_sign b = 0 then NaN
               else if 0 < py_sign a * py_sign b then PInf else NInf))"

text \<open>\<^verbatim>\<open>a / b\<close>: a zero divisor raises \<^verbatim>\<open>ZeroDivisionError\<close>.\<close>

definition py_truediv :: "pyfloat \<Rightarrow> pyfloat \<Rightarrow> error + pyfloat" where
  "py_truediv a b =
     (if b = Fin 0 then Inl ZeroDivisionError
      else Inr (case (a, b) of
        (Fin x, Fin y) \<Rightarrow> binary64 (x / y)
      | (NaN, _) \<Rightarrow> NaN
      | (_, NaN) \<Rightarrow> NaN
      | (Fin x, _) \<Rightarrow> Fin 0
      | (_, Fin y) \<Rightarrow> (if 0 < py_sign a * py_sign b then PInf else NInf)
      | _ \<Rightarrow> NaN))"

text \<open>
  \<^verbatim>\<open>round(a, ndigits)\<close> for a float and \<open>ndigits \<ge> 0\<close>: the exact value is rounded to
  \<open>ndigits\<close> decimal places, ties to even, and the decimal result is rounded to
  binary64; an infinity and NaN round to themselves.
\<close>

definition py_round :: "pyfloat \<Rightarrow> nat \<Rightarrow> pyfloat" where
  "py_round a ndigits =
     (case a of
        Fin x \<Rightarrow> binary64 (of_int (round_half_even (x * 10 ^ ndigits)) / 10 ^ ndigits)
      | _ \<Rightarrow> a)"

text \<open>
  \<^verbatim>\<open>int(a)\<close>: truncation towards zero; NaN raises \<^verbatim>\<open>ValueError\<close>, an infinity
  \<^verbatim>\<open>OverflowError\<close>.
\<close>

definition py_int :: "pyfloat \<Rightarrow> error + int" where
  "py_int a =
     (case a of
        Fin x \<Rightarrow> Inr (if 0 \<le> x then \<lfloor>x\<rfloor> else \<lceil>x\<rceil>)
      | NaN \<Rightarrow> Inl ValueError
      | _ \<Rightarrow> Inl OverflowError)"

text \<open>
  \<^verbatim>\<open>pandas.isna\<close> on a cell of a numeric column built from row dicts: \<^verbatim>\<open>None\<close> and NaN
  are both the missing value.
\<close>

definition pd_isna :: "pyfloat option \<Rightarrow> bool" where
  "pd_isna v = (v = None \<or> v = Some NaN)"

subsection \<open>Data frames\<close>

text \<open>
  The part of an OHLCV frame the program reads: the rows in ascending date order, each
  with its \<^verbatim>\<open>Close\<close> and \<^verbatim>\<open>Volume\<close> cell, and whether the frame has a
  \<^verbatim>\<open>Volume\<close> column at all (the volume of a row is not read when it has none).
\<close>

record bar =
  close :: pyfloat
  volume :: pyfloat

record dataframe =
  has_volume :: bool
  bars :: "bar list"

text \<open>\<^verbatim>\<open>df.empty\<close>\<close>

definition df_empty :: "dataframe \<Rightarrow> bool" where
  "df_empty df = (bars df = [])"

text \<open>What one call of \<^verbatim>\<open>yf.download\<close> does: raise (with a message), or return a frame or \<^verbatim>\<open>None\<close>.\<close>

datatype download_result = Raises string | Returns "dataframe option"

type_synonym download = "string \<Rightarrow> int \<Rightarrow> download_result"

type_synonym series_dict = "(string \<times> dataframe option) list"

subsection \<open>Catalogs\<close>

definition commodities :: "(string \<times> string option) list" where
  "commodities =
    [(''Crude Oil (WTI)'', Some ''CL=F''),
     (''Brent Oil'', Some ''BZ=F''),
     (''Natural Gas (Henry Hub, US)'', Some ''NG=F''),
     (''EU Gas (TTF)'', Some ''TTF=F''),
     (''LNG (JKM, Asia proxy)'', Some ''JKM=F''),
     (''Gold'', Some ''GC=F''),
     (''Silver'', Some ''SI=F''),
     (''Copper'', Some ''HG=F''),
     (''Aluminum'', Some ''ALI=F''),
     (''Corn'', Some ''ZC=F''),
     (''Wheat'', Some ''ZW=F''),
     (''Soybeans'', Some ''ZS=F''),
     (''Coffee'', Some ''KC=F''),
     (''Cocoa'', Some ''CC=F''),
     (''Live Cattle (Beef)'', Some ''LE=F''),
     (''Ethylene (proxy)'', Some ''ETHUSD=X'')]"

definition currencies :: "(string \<times> string option) list" where
  "currencies =
    [(''GBP/USD'', Some ''GBPUSD=X''),
     (''EUR/USD'', Some ''EURUSD=X''),
     (''USD/BRL'', Some ''USDBRL=X''),
     (''USD/CNY'', Some ''USDCNY=X''),
     (''USD/JPY'', Some ''USDJPY=X''),
     (''USD/NOK'', Some ''USDNOK=X''),
     (''USD/CAD'', Some ''USDCAD=X''),
     (''USD/AUD'', Some ''AUDUSD=X''),
     (''CHF/USD'', Some ''CHFUSD=X'')]"

record market =
  ticker :: "string option"
  market_unit :: string

definition compliance_markets :: "(string \<times> market) list" where
  "compliance_markets =
    [(''EU ETS (EUA)'', \<lparr>ticker = Some ''C02.F'', market_unit = euro_tag @ ''/t''\<rparr>),
     (''UK ETS'', \<lparr>ticker = None, market_unit = pound_tag @ ''/t''\<rparr>),
     (''California (CARB)'', \<lparr>ticker = None, market_unit = ''US$/t''\<rparr>),
     (''RGGI'', \<lparr>ticker = None, market_unit = ''US$/t''\<rparr>),
     (''New Zealand (NZ ETS)'', \<lparr>ticker = None, market_unit = ''NZ$/t''\<rparr>),
     (''South Korea (K-ETS)'', \<lparr>ticker = None, market_unit = ''KRW/t''\<rparr>),
     (''China National ETS'', \<lparr>ticker = None, market_unit = ''RMB/t''\<rparr>),
     (''Core Carbon Principles (CCP)'', \<lparr>ticker = None, market_unit = ''US$/t''\<rparr>),
     (''CORSIA (Phase 1)'', \<lparr>ticker = None, market_unit = ''US$/t''\<rparr>),
     (''CBL Global (GEO)'', \<lparr>ticker = Some ''GEO=F'', market_unit = ''US$/t''\<rparr>),
     (''CBL Nature-Based (NGO)'', \<lparr>ticker = Some ''NGO=F'', market_unit = ''US$/t''\<rparr>),
     (''ICE Nature-Based'', \<lparr>ticker = None, market_unit = ''US$/t''\<rparr>),
     (''California Air Resources Board (ARB) - Allowance'', \<lparr>ticker = None, market_unit = ''US$/t''\<rparr>),
     (''Australia ACCU'', \<lparr>ticker = None, market_unit = ''A$/t''\<rparr>)]"

subsection \<open>Source fetcher\<close>

text \<open>
  \<^verbatim>\<open>fetch_yfinance(tickers, period_days)\<close>: the loop over \<^verbatim>\<open>tickers.items()\<close>, with
  \<^verbatim>\<open>results\<close> as the accumulator. An instrument without a ticker is skipped; a download
  that returns \<^verbatim>\<open>None\<close> or an empty frame is skipped (\<^verbatim>\<open>continue\<close>); a download that
  raises stores \<^verbatim>\<open>None\<close> under the name; otherwise the frame is stored after
  \<^verbatim>\<open>dropna(how="all")\<close>. The period string \<^verbatim>\<open>f"{period_days}d"\<close> is handed to the
  download as the number of days.
\<close>

fun fetch_loop ::
  "download \<Rightarrow> (dataframe \<Rightarrow> dataframe) \<Rightarrow> int \<Rightarrow> (string \<times> string option) list
    \<Rightarrow> series_dict \<Rightarrow> series_dict" where
  "fetch_loop dl dropna period [] results = results"
| "fetch_loop dl dropna period ((name, tick) # rest) results =
     (case tick of
        None \<Rightarrow> fetch_loop dl dropna period rest results
      | Some t \<Rightarrow>
          (case dl t period of
             Raises e \<Rightarrow> fetch_loop dl dropna period rest (AList.update name None results)
           | Returns None \<Rightarrow> fetch_loop dl dropna period rest results
           | Returns (Some df) \<Rightarrow>
               if df_empty df then fetch_loop dl dropna period rest results
               else fetch_loop dl dropna period rest
                      (AList.update name (Some (dropna df)) results)))"

definition fetch_yfinance ::
  "download \<Rightarrow> (dataframe \<Rightarrow> dataframe) \<Rightarrow> (string \<times> string option) list \<Rightarrow> int
    \<Rightarrow> series_dict" where
  "fetch_yfinance dl dropna tickers period_days = fetch_loop dl dropna period_days tickers []"

subsection \<open>Summary builder\<close>

record summary_row =
  Asset :: string
  Last_Price :: "pyfloat option"
  Change_pct :: "pyfloat option"
  Volume :: "int option"

text \<open>
  Line 172: \<^verbatim>\<open>(last - prev) / prev * 100 if prev != 0 else 0\<close>. The comparison is false
  only for a zero; NaN and the infinities go through the arithmetic.
\<close>

definition pct_change :: "pyfloat \<Rightarrow> pyfloat \<Rightarrow> error + pyfloat" where
  "pct_change lst prev =
     (if prev \<noteq> Fin 0
      then (case py_truediv (py_sub lst prev) prev of
              Inl e \<Rightarrow> Inl e
            | Inr q \<Rightarrow> Inr (py_mul q (Fin 100)))
      else Inr (Fin 0))"

text \<open>
  The body of the loop of \<^verbatim>\<open>summary_from_yf_dict\<close>. \<^verbatim>\<open>iloc[-1]\<close> and \<^verbatim>\<open>iloc[-2]\<close>
  are only reached on a frame with at least one, respectively two, rows. Line 173
  converts the last volume with \<^verbatim>\<open>int\<close>, which raises on NaN and on an infinity.
\<close>

definition summary_row_of :: "string \<Rightarrow> dataframe option \<Rightarrow> error + summary_row" where
  "summary_row_of name dfo =
     (case dfo of
        None \<Rightarrow> Inr \<lparr>Asset = name, Last_Price = None, Change_pct = None, Volume = None\<rparr>
      | Some df \<Rightarrow>
          if df_empty df
          then Inr \<lparr>Asset = name, Last_Price = None, Change_pct = None, Volume = None\<rparr>
          else
            let lst = close (last (bars df));
                prev = (if length (bars df) > 1
                        then close (bars df ! (length (bars df) - 2)) else lst)
            in (case pct_change lst prev of
                  Inl e \<Rightarrow> Inl e
                | Inr pct \<Rightarrow>
                    (case (if has_volume df
                           then (case py_int (volume (last (bars df))) of
                                   Inl e \<Rightarrow> Inl e
                                 | Inr v \<Rightarrow> Inr (Some v))
                           else Inr None) of
                       Inl e \<Rightarrow> Inl e
                     | Inr vol \<Rightarrow>
                         Inr \<lparr>Asset = name, Last_Price = Some lst,
                              Change_pct = Some (py_round pct 2), Volume = vol\<rparr>)))"

fun summary_loop :: "series_dict \<Rightarrow> summary_row list \<Rightarrow> error + summary_row list" where
  "summary_loop [] rows = Inr rows"
| "summary_loop ((name, df) # rest) rows =
     (case summary_row_of name df of
        Inl e \<Rightarrow> Inl e
      | Inr r \<Rightarrow> summary_loop rest (rows @ [r]))"

definition summary_from_yf_dict :: "series_dict \<Rightarrow> error + summary_row list" where
  "summary_from_yf_dict d = summary_loop d []"

subsection \<open>Compliance records and fetch-all\<close>

text \<open>
  One value of \<^verbatim>\<open>compliance_data\<close>: a dict with the keys \<^verbatim>\<open>price\<close>, \<^verbatim>\<open>history\<close>,
  \<^verbatim>\<open>unit\<close> and \<^verbatim>\<open>source_note\<close>. \<^verbatim>\<open>fetch_all_data\<close> sets all four keys of every
  record, so the defaults of \<^verbatim>\<open>meta.get("unit", "")\<close> and
  \<^verbatim>\<open>meta.get("source_note", "")\<close> are never taken; the placeholder's record, which
  has no \<^verbatim>\<open>unit\<close> key before line 141 sets it, carries the empty string until then.
\<close>

record compliance_meta =
  price :: "pyfloat option"
  history :: "dataframe option"
  unit :: string
  source_note :: string

type_synonym compliance_dict = "(string \<times> compliance_meta) list"

definition fetch_compliance_placeholder :: "string \<Rightarrow> compliance_meta" where
  "fetch_compliance_placeholder market_key =
     \<lparr>price = None, history = None, unit = '''', source_note = ''placeholder - wire an API''\<rparr>"

text \<open>
  The body of the loop of \<^verbatim>\<open>fetch_all_data\<close> over \<^verbatim>\<open>compliance_markets.items()\<close>.
  \<^verbatim>\<open>if tick:\<close> is false for \<^verbatim>\<open>None\<close> and for the empty string.
\<close>

definition compliance_fetch_one :: "download \<Rightarrow> int \<Rightarrow> string \<Rightarrow> market \<Rightarrow> compliance_meta" where
  "compliance_fetch_one dl days name meta =
     (case ticker meta of
        None \<Rightarrow> (fetch_compliance_placeholder name)\<lparr>unit := market_unit meta\<rparr>
      | Some tick \<Rightarrow>
          if tick = '''' then (fetch_compliance_placeholder name)\<lparr>unit := market_unit meta\<rparr>
          else
            (case dl tick days of
               Raises e \<Rightarrow>
                 \<lparr>price = None, history = None, unit = market_unit meta,
                  source_note = ''Ticker error: '' @ e\<rparr>
             | Returns None \<Rightarrow>
                 \<lparr>price = None, history = None, unit = market_unit meta,
                  source_note = ''Ticker '' @ tick @ '' returned empty''\<rparr>
             | Returns (Some df) \<Rightarrow>
                 if df_empty df
                 then \<lparr>price = None, history = None, unit = market_unit meta,
                       source_note = ''Ticker '' @ tick @ '' returned empty''\<rparr>
                 else \<lparr>price = Some (close (last (bars df))), history = Some df,
                       unit = market_unit meta, source_note = ''Ticker '' @ tick\<rparr>))"

fun compliance_fetch_loop ::
  "download \<Rightarrow> int \<Rightarrow> (string \<times> market) list \<Rightarrow> compliance_dict \<Rightarrow> compliance_dict" where
  "compliance_fetch_loop dl days [] compliance_data = compliance_data"
| "compliance_fetch_loop dl days ((name, meta) # rest) compliance_data =
     compliance_fetch_loop dl days rest
       (AList.update name (compliance_fetch_one dl days name meta) compliance_data)"

definition fetch_all_data ::
  "download \<Rightarrow> (dataframe \<Rightarrow> dataframe) \<Rightarrow> int \<Rightarrow> series_dict \<times> series_dict \<times> compliance_dict" where
  "fetch_all_data dl dropna days =
     (let commod_data = fetch_yfinance dl dropna commodities days;
          fx_data = fetch_yfinance dl dropna currencies days;
          compliance_data = compliance_fetch_loop dl days compliance_markets []
      in (commod_data, fx_data, compliance_data))"

subsection \<open>Currency conversion\<close>

record compliance_row =
  Market :: string
  Unit :: string
  Last_Price_local :: "pyfloat option"
  Last_Price_USD :: "pyfloat option"
  Source :: string
  Note :: string

text \<open>
  Lines 201 to 205 and 209 to 212: the conversion with one FX pair. The result is the pair
  (\<^verbatim>\<open>converted\<close>, \<^verbatim>\<open>conv_note\<close>); when the pair is not a key of \<^verbatim>\<open>fx_data\<close> or its
  value is \<^verbatim>\<open>None\<close>, both keep their initial values \<^verbatim>\<open>None\<close> and \<^verbatim>\<open>""\<close>. On a
  frame without rows \<^verbatim>\<open>iloc[-1]\<close> raises \<^verbatim>\<open>IndexError\<close>.
\<close>

definition convert_with :: "series_dict \<Rightarrow> string \<Rightarrow> pyfloat \<Rightarrow> error + (pyfloat option \<times> string)" where
  "convert_with fx_data fx_pair p =
     (case map_of fx_data fx_pair of
        Some (Some df) \<Rightarrow>
          if bars df = [] then Inl IndexError
          else Inr (Some (py_mul p (close (last (bars df)))), ''converted using '' @ fx_pair)
      | _ \<Rightarrow> Inr (None, ''''))"

text \<open>Lines 188 to 212: the chain of tests on the unit (and, for \<^verbatim>\<open>A$\<close>, on the name).\<close>

definition convert_price :: "series_dict \<Rightarrow> string \<Rightarrow> string \<Rightarrow> pyfloat \<Rightarrow> error + (pyfloat option \<times> string)" where
  "convert_price fx_data name u p =
     (if str_in ''NZ$'' u then Inr (None, ''(conversion not available - add USD/NZD pair)'')
      else if str_in ''A$'' u \<or> str_in ''A$'' name
        then Inr (None, ''(conversion not available - add USD/AUD pair)'')
      else if str_in ''KRW'' u then Inr (None, ''(conversion not available - add USDKRW pair)'')
      else if str_in ''RMB'' u \<or> str_in ''CNY'' u then convert_with fx_data ''USD/CNY'' p
      else if str_in pound_tag u then convert_with fx_data ''GBP/USD'' p
      else Inr (None, ''''))"

text \<open>
  The body of the loop of \<^verbatim>\<open>compliance_summary_table\<close>: the row appended for one
  record. The FX frames are read from the module's global \<^verbatim>\<open>fx_data\<close>, not from the
  parameter \<^verbatim>\<open>fx_df_for_conv\<close>.
\<close>

definition compliance_row_of :: "series_dict \<Rightarrow> bool \<Rightarrow> string \<Rightarrow> compliance_meta \<Rightarrow> error + compliance_row" where
  "compliance_row_of fx_data to_usd name meta =
     (case (if to_usd then price meta else None) of
        Some p \<Rightarrow>
          (case convert_price fx_data name (unit meta) p of
             Inl e \<Rightarrow> Inl e
           | Inr (Some converted, conv_note) \<Rightarrow>
               Inr \<lparr>Market = name, Unit = unit meta, Last_Price_local = price meta,
                    Last_Price_USD = Some (py_round converted 4), Source = source_note meta,
                    Note = conv_note\<rparr>
           | Inr (None, conv_note) \<Rightarrow>
               Inr \<lparr>Market = name, Unit = unit meta, Last_Price_local = price meta,
                    Last_Price_USD = None, Source = source_note meta, Note = conv_note\<rparr>)
      | None \<Rightarrow>
          Inr \<lparr>Market = name, Unit = unit meta, Last_Price_local = price meta,
               Last_Price_USD = None, Source = source_note meta, Note = ''''\<rparr>)"

fun compliance_loop ::
  "series_dict \<Rightarrow> bool \<Rightarrow> compliance_dict \<Rightarrow> compliance_row list \<Rightarrow> error + compliance_row list" where
  "compliance_loop fx_data to_usd [] rows = Inr rows"
| "compliance_loop fx_data to_usd ((name, meta) # rest) rows =
     (case compliance_row_of fx_data to_usd name meta of
        Inl e \<Rightarrow> Inl e
      | Inr r \<Rightarrow> compliance_loop fx_data to_usd rest (rows @ [r]))"

text \<open>
  \<^verbatim>\<open>compliance_summary_table(compliance_dict, fx_df_for_conv, to_usd)\<close>, with the global
  \<^verbatim>\<open>fx_data\<close> as the first argument.
\<close>

definition compliance_summary_table ::
  "series_dict \<Rightarrow> compliance_dict \<Rightarrow> series_dict \<Rightarrow> bool \<Rightarrow> error + compliance_row list" where
  "compliance_summary_table fx_data compliance_dict fx_df_for_conv to_usd =
     compliance_loop fx_data to_usd compliance_dict []"

subsection \<open>Snapshot report\<close>

text \<open>
  The document is the list of the pages handed to \<^verbatim>\<open>pdf.savefig\<close>, in order. A page
  records what the program puts on the figure. The time stamp \<^verbatim>\<open>now\<close>, which the source
  reads from the clock, is an argument.
\<close>

datatype cell = Blank | Text string | Number pyfloat | Whole int

datatype page =
    TitlePage string string int
  | TablePage string "string list" "cell list list"
  | ChartPage string string "pyfloat list"
  | NotesPage string "string list"

text \<open>
  \<^verbatim>\<open>table.fillna("").values\<close> and \<^verbatim>\<open>table.columns\<close> for the two kinds of table: a
  missing value becomes the empty string; \<^verbatim>\<open>pd.DataFrame([])\<close> has no columns.
\<close>

definition float_cell :: "pyfloat option \<Rightarrow> cell" where
  "float_cell v = (if pd_isna v then Blank else Number (the v))"

definition int_cell :: "int option \<Rightarrow> cell" where
  "int_cell v = (case v of None \<Rightarrow> Blank | Some n \<Rightarrow> Whole n)"

definition summary_values :: "summary_row list \<Rightarrow> cell list list" where
  "summary_values t =
     map (\<lambda>r. [Text (Asset r), float_cell (Last_Price r), float_cell (Change_pct r),
                int_cell (Volume r)]) t"

definition summary_columns :: "summary_row list \<Rightarrow> string list" where
  "summary_columns t = (if t = [] then [] else [''Asset'', ''Last Price'', ''Change %'', ''Volume''])"

definition compliance_values :: "compliance_row list \<Rightarrow> cell list list" where
  "compliance_values t =
     map (\<lambda>r. [Text (Market r), Text (Unit r), float_cell (Last_Price_local r),
                float_cell (Last_Price_USD r), Text (Source r), Text (Note r)]) t"

definition compliance_columns :: "compliance_row list \<Rightarrow> string list" where
  "compliance_columns t =
     (if t = [] then []
      else [''Market'', ''Unit'', ''Last Price (local)'', ''Last Price (USD)'', ''Source'', ''Note''])"

text \<open>
  \<^verbatim>\<open>ax.table(cellText=..., colLabels=..., ...)\<close> on the axes titled \<open>title\<close>, as called at
  lines 312, 323 and 334. matplotlib's \<^verbatim>\<open>table\<close> starts with
  \<^verbatim>\<open>rows = len(cellText); cols = len(cellText[0])\<close>, so a \<^verbatim>\<open>cellText\<close> without rows
  raises \<^verbatim>\<open>IndexError\<close>; the rows built above all have the length of \<^verbatim>\<open>colLabels\<close>.
\<close>

definition ax_table :: "string \<Rightarrow> cell list list \<Rightarrow> string list \<Rightarrow> error + page" where
  "ax_table title cellText colLabels =
     (case cellText of
        [] \<Rightarrow> Inl IndexError
      | _ \<Rightarrow> Inr (TablePage title colLabels cellText))"

text \<open>
  \<^verbatim>\<open>add_series_page(title, series_dict, max_plots)\<close>: one chart page for each series that
  is neither \<^verbatim>\<open>None\<close> nor empty, stopping once \<^verbatim>\<open>plotted >= max_plots\<close>. The state is
  the counter \<^verbatim>\<open>plotted\<close> and the document so far.
\<close>

fun add_series_loop :: "string \<Rightarrow> nat \<Rightarrow> series_dict \<Rightarrow> nat \<Rightarrow> page list \<Rightarrow> nat \<times> page list" where
  "add_series_loop title max_plots [] plotted pdf = (plotted, pdf)"
| "add_series_loop title max_plots ((name, dfo) # rest) plotted pdf =
     (case dfo of
        None \<Rightarrow> add_series_loop title max_plots rest plotted pdf
      | Some df \<Rightarrow>
          if df_empty df then add_series_loop title max_plots rest plotted pdf
          else
            let pdf' = pdf @ [ChartPage title name (map close (bars df))];
                plotted' = plotted + 1
            in if plotted' \<ge> max_plots then (plotted', pdf')
               else add_series_loop title max_plots rest plotted' pdf')"

definition add_series_page :: "string \<Rightarrow> series_dict \<Rightarrow> nat \<Rightarrow> page list \<Rightarrow> nat \<times> page list" where
  "add_series_page title series_dict max_plots pdf = add_series_loop title max_plots series_dict 0 pdf"

text \<open>Lines 362 to 366: the histories of the compliance records that have one.\<close>

fun hist_loop :: "compliance_dict \<Rightarrow> series_dict \<Rightarrow> series_dict" where
  "hist_loop [] hist_dict = hist_dict"
| "hist_loop ((name, meta) # rest) hist_dict =
     (case history meta of
        None \<Rightarrow> hist_loop rest hist_dict
      | Some hist \<Rightarrow>
          if \<not> df_empty hist then hist_loop rest (AList.update name (Some hist) hist_dict)
          else hist_loop rest hist_dict)"

definition notes_text :: "string list" where
  "notes_text =
    [''Data sources: Yahoo Finance (where available), placeholders for markets that require dedicated APIs or scraping.'',
     ''Markets with '' @ [CHR 0x27] @ ''None'' @ [CHR 0x27] @ '' prices are placeholders. Replace fetch_compliance_placeholder() with real API/scrapes.'',
     ''Currency conversions are simplistic and require robust FX pairs for precise conversions.'',
     ''This PDF was generated by the Streamlit dashboard (v4).'']"

text \<open>
  \<^verbatim>\<open>generate_pdf_snapshot\<close>: the title page, the three table pages (each may raise in
  \<^verbatim>\<open>ax.table\<close>, and then no document is returned), the trend pages and the notes page.
  \<open>trend_and_notes\<close> is the part after the tables, lines 357 to 384, applied to the
  document so far.
\<close>

definition trend_and_notes :: "page list \<Rightarrow> series_dict \<Rightarrow> series_dict \<Rightarrow> compliance_dict \<Rightarrow> page list" where
  "trend_and_notes pdf3 commod_data fx_data compliance_data =
     (let pdf4 = snd (add_series_page ''Commodities Trend'' commod_data 6 pdf3);
          pdf5 = snd (add_series_page ''FX Trend'' fx_data 6 pdf4);
          hist_dict = hist_loop compliance_data [];
          pdf6 = (if hist_dict \<noteq> [] then snd (add_series_page ''Compliance Market Trends'' hist_dict 6 pdf5)
                  else pdf5)
      in pdf6 @ [NotesPage ''Notes & Data Sources'' (map (\<lambda>n. ''- '' @ n) notes_text)])"

definition generate_pdf_snapshot ::
  "summary_row list \<Rightarrow> summary_row list \<Rightarrow> compliance_row list \<Rightarrow> series_dict \<Rightarrow> series_dict
    \<Rightarrow> compliance_dict \<Rightarrow> int \<Rightarrow> string \<Rightarrow> error + page list" where
  "generate_pdf_snapshot commod_table fx_table comp_table commod_data fx_data compliance_data days now =
     (let pdf0 = [TitlePage ''Commodities, FX & Compliance Carbon - Daily Snapshot'' now days]
      in (case ax_table ''Commodities Summary'' (summary_values commod_table)
                 (summary_columns commod_table) of
           Inl e \<Rightarrow> Inl e
         | Inr tbl \<Rightarrow>
             (case ax_table ''FX Summary'' (summary_values fx_table) (summary_columns fx_table) of
                Inl e \<Rightarrow> Inl e
              | Inr tbl2 \<Rightarrow>
                  (case ax_table ''Compliance Carbon Markets Summary''
                          (compliance_values comp_table) (compliance_columns comp_table) of
                     Inl e \<Rightarrow> Inl e
                   | Inr tbl3 \<Rightarrow>
                       Inr (trend_and_notes (pdf0 @ [tbl, tbl2, tbl3]) commod_data fx_data
                              compliance_data)))))"

section \<open>Properties\<close>

subsection \<open>Evaluating floats\<close>

lemma bit_length_0: "bit_length 0 = 0"
  by (subst bit_length.simps) simp

lemma bit_length_1: "bit_length 1 = 1"
  by (subst bit_length.simps) (simp add: bit_length_0)

lemma bit_length_Suc_0: "bit_length (Suc 0) = 1"
  using bit_length_1 by simp

lemma bit_length_Bit0: "bit_length (numeral (num.Bit0 k)) = Suc (bit_length (numeral k))"
  by (subst bit_length.simps) simp

lemma bit_length_Bit1: "bit_length (numeral (num.Bit1 k)) = Suc (bit_length (numeral k))"
  by (subst bit_length.simps) simp

lemmas float_eval = binary64_def round_half_even_def Let_def
  bit_length_0 bit_length_1 bit_length_Suc_0 bit_length_Bit0 bit_length_Bit1
  py_sub_def py_mul_def py_truediv_def py_round_def py_int_def py_sign_def

text \<open>
  The arithmetic at some decimal inputs: 0.1 is not a binary64 number;
  \<^verbatim>\<open>round((1000.25 - 1000) / 1000 * 100, 2)\<close> is 0.03, although the real quotient 0.025
  is a tie; \<^verbatim>\<open>round(80 * 1.000000625, 4)\<close> is 80.0001; \<^verbatim>\<open>round(0.125, 2)\<close> is 0.12 and
  \<^verbatim>\<open>round(2.675, 2)\<close> is 2.67.
\<close>

lemma binary64_tenth: "binary64 (1 / 10) = Fin (3602879701896397 / 36028797018963968)"
  by (simp add: float_eval)

lemma pct_1000_25:
  "py_truediv (py_sub (Fin (4001 / 4)) (Fin 1000)) (Fin 1000) =
     Inr (Fin (1152921504606847 / 4611686018427387904))
   \<and> py_round (py_mul (Fin (1152921504606847 / 4611686018427387904)) (Fin 100)) 2 =
       binary64 (3 / 100)"
  by (simp add: float_eval)

lemma mul_80_round:
  "binary64 (1000000625 / 1000000000) = Fin (4503602442120263 / 4503599627370496)
   \<and> py_round (py_mul (Fin 80) (Fin (4503602442120263 / 4503599627370496))) 4 =
       binary64 (800001 / 10000)"
  by (simp add: float_eval)

lemma round_ties:
  "py_round (Fin (1 / 8)) 2 = binary64 (12 / 100)
   \<and> binary64 (2675 / 1000) = Fin (3011782250804019 / 1125899906842624)
   \<and> py_round (Fin (3011782250804019 / 1125899906842624)) 2 = binary64 (267 / 100)"
  by (simp add: float_eval)

lemma py_truediv_nonzero: "b \<noteq> Fin 0 \<Longrightarrow> \<exists>q. py_truediv a b = Inr q"
  by (simp add: py_truediv_def)

subsection \<open>The loops as maps\<close>






lemma compliance_loop_Inr:
  "compliance_loop fx u d rows = Inr out \<Longrightarrow>
     \<exists>rs. out = rows @ rs \<and> length rs = length d \<and>
          (\<forall>i<length d. compliance_row_of fx u (fst (d ! i)) (snd (d ! i)) = Inr (rs ! i))"
proof (induction d arbitrary: rows out)
  case Nil
  then show ?case by simp
next
  case (Cons a d)
  obtain name meta where a: "a = (name, meta)" by (cases a)
  from Cons.prems a obtain r where r: "compliance_row_of fx u name meta = Inr r"
    and rest: "compliance_loop fx u d (rows @ [r]) = Inr out"
    by (auto split: sum.splits)
  from Cons.IH [OF rest] obtain rs where rs: "out = (rows @ [r]) @ rs" "length rs = length d"
    "\<forall>i<length d. compliance_row_of fx u (fst (d ! i)) (snd (d ! i)) = Inr (rs ! i)"
    by blast
  have "\<forall>i<length (a # d).
          compliance_row_of fx u (fst ((a # d) ! i)) (snd ((a # d) ! i)) = Inr ((r # rs) ! i)"
  proof (intro allI impI)
    fix i assume "i < length (a # d)"
    then show "compliance_row_of fx u (fst ((a # d) ! i)) (snd ((a # d) ! i)) = Inr ((r # rs) ! i)"
      using r rs(3) a by (cases i) auto
  qed
  with rs(1,2) show ?case
    by (intro exI [of _ "r # rs"]) simp
qed

text \<open>A table that is returned has the row of the \<open>i\<close>-th record at index \<open>i\<close>.\<close>

lemma compliance_table_rows:
  assumes "compliance_summary_table fx d arg u = Inr rows"
  shows "length rows = length d"
    and "i < length d \<Longrightarrow> d ! i = (name, meta) \<Longrightarrow> compliance_row_of fx u name meta = Inr (rows ! i)"
  using compliance_loop_Inr [of fx u d "[]" rows] assms
  by (auto simp: compliance_summary_table_def)

text \<open>The table is returned when no record raises.\<close>

lemma compliance_loop_total:
  "(\<forall>(n, m)\<in>set d. \<exists>r. compliance_row_of fx u n m = Inr r) \<Longrightarrow>
     \<exists>out. compliance_loop fx u d rows = Inr out"
  by (induction d arbitrary: rows) (auto split: sum.splits)

lemma compliance_row_of_local:
  "compliance_row_of fx False name meta =
     Inr \<lparr>Market = name, Unit = unit meta, Last_Price_local = price meta,
          Last_Price_USD = None, Source = source_note meta, Note = ''''\<rparr>"
  by (simp add: compliance_row_of_def)

lemma compliance_loop_local:
  "compliance_loop fx False d rows =
     Inr (rows @ map (\<lambda>(name, meta). \<lparr>Market = name, Unit = unit meta, Last_Price_local = price meta,
          Last_Price_USD = None, Source = source_note meta, Note = ''''\<rparr>) d)"
  by (induction d arbitrary: rows) (auto simp: compliance_row_of_local)

subsection \<open>Notes and converted prices\<close>

lemma convert_with_cases:
  "convert_with fx pair p = Inr (c, n) \<Longrightarrow>
     (c = None \<and> n = '''') \<or> (c \<noteq> None \<and> n = ''converted using '' @ pair)"
  by (auto simp: convert_with_def split: option.splits if_splits)

lemma convert_price_note:
  assumes "convert_price fx name u p = Inr (c, n)"
  shows "(c \<noteq> None) = (n = ''converted using USD/CNY'' \<or> n = ''converted using GBP/USD'')"
  using assms
  by (auto simp: convert_price_def split: if_splits dest!: convert_with_cases)

lemma compliance_row_of_note:
  assumes "compliance_row_of fx u name meta = Inr r"
  shows "(Last_Price_USD r \<noteq> None) =
         (Note r = ''converted using USD/CNY'' \<or> Note r = ''converted using GBP/USD'')"
proof (cases "if u then price meta else None")
  case None
  with assms show ?thesis by (auto simp: compliance_row_of_def)
next
  case (Some p)
  with assms obtain c n where cn: "convert_price fx name (unit meta) p = Inr (c, n)"
    by (auto simp: compliance_row_of_def split: sum.splits)
  from convert_price_note [OF cn] assms Some cn show ?thesis
    by (cases c) (auto simp: compliance_row_of_def)
qed

lemma converted_using_prefix:
  "(\<exists>pair. n = ''converted using '' @ pair) = (take 16 n = ''converted using '')"
proof
  assume "\<exists>pair. n = ''converted using '' @ pair"
  then show "take 16 n = ''converted using ''" by auto
next
  assume "take 16 n = ''converted using ''"
  then have "n = ''converted using '' @ drop 16 n"
    by (metis append_take_drop_id)
  then show "\<exists>pair. n = ''converted using '' @ pair" ..
qed

text \<open>
  In the row dicts of every table that is returned, for either value of the flag, the
  converted price is not \<^verbatim>\<open>None\<close> if and only if the note is \<^verbatim>\<open>converted using\<close>
  followed by a pair; the only two such notes are those of USD/CNY and GBP/USD.
\<close>

lemma converted_not_None_iff_note:
  assumes "compliance_summary_table fx_data d fx_df_for_conv to_usd = Inr rows"
    and "r \<in> set rows"
  shows "(Last_Price_USD r \<noteq> None) = (\<exists>pair. Note r = ''converted using '' @ pair)
       \<and> (Last_Price_USD r \<noteq> None) =
           (Note r = ''converted using USD/CNY'' \<or> Note r = ''converted using GBP/USD'')"
proof -
  from assms(2) obtain i where i: "i < length rows" "rows ! i = r"
    by (auto simp: in_set_conv_nth)
  from compliance_table_rows(1) [OF assms(1)] i have "i < length d" by simp
  from compliance_table_rows(2) [OF assms(1) this, of "fst (d ! i)" "snd (d ! i)"] i
  have row: "compliance_row_of fx_data to_usd (fst (d ! i)) (snd (d ! i)) = Inr r" by simp
  have two: "(Last_Price_USD r \<noteq> None) =
      (Note r = ''converted using USD/CNY'' \<or> Note r = ''converted using GBP/USD'')"
    by (rule compliance_row_of_note [OF row])
  have "Note r = '''' \<or> Note r = ''(conversion not available - add USD/NZD pair)''
      \<or> Note r = ''(conversion not available - add USD/AUD pair)''
      \<or> Note r = ''(conversion not available - add USDKRW pair)''
      \<or> Note r = ''converted using USD/CNY'' \<or> Note r = ''converted using GBP/USD''"
    using row
    by (auto simp: compliance_row_of_def convert_price_def convert_with_def
        split: option.splits sum.splits if_splits)
  then have three: "(take 16 (Note r) = ''converted using '') =
      (Note r = ''converted using USD/CNY'' \<or> Note r = ''converted using GBP/USD'')"
    by auto
  show ?thesis
    unfolding converted_using_prefix using two three by blast
qed


text \<open>
  Claim C9. With the flag false the table is returned (nothing can raise) and has, in
  the order of the input, one row for each record with the record's name, unit, local
  price and source note, no converted USD price and the empty conversion note.
\<close>

theorem local_currency_mirrors_input:
  "compliance_summary_table fx_data d fx_df_for_conv False =
     Inr (map (\<lambda>(name, meta).
            \<lparr>Market = name, Unit = unit meta, Last_Price_local = price meta,
             Last_Price_USD = None, Source = source_note meta, Note = ''''\<rparr>) d)"
  by (simp add: compliance_summary_table_def compliance_loop_local)

subsection \<open>Conversion to USD\<close>

lemma convert_price_untagged:
  assumes "\<not> str_in ''NZ$'' u" "\<not> str_in ''A$'' u" "\<not> str_in ''A$'' name" "\<not> str_in ''KRW'' u"
    and "\<not> str_in ''RMB'' u" "\<not> str_in ''CNY'' u" "\<not> str_in pound_tag u"
  shows "convert_price fx name u p = Inr (None, '''')"
  using assms by (simp add: convert_price_def)


text \<open>
  Claim C10, as stated, at a record whose unit \<^verbatim>\<open>US$/t\<close> has none of the tags but whose
  name contains \<^verbatim>\<open>A$\<close>: the test of line 194 also looks at the name, and the row gets
  the USD/AUD note instead of the empty one.
\<close>

theorem usd_unit_note_counterexample:
  "\<not> str_in ''NZ$'' ''US$/t'' \<and> \<not> str_in ''A$'' ''US$/t'' \<and> \<not> str_in ''KRW'' ''US$/t''
   \<and> \<not> str_in ''RMB'' ''US$/t'' \<and> \<not> str_in ''CNY'' ''US$/t'' \<and> \<not> str_in pound_tag ''US$/t''
   \<and> compliance_summary_table []
        [(''Australia ACCU (A$)'', \<lparr>price = Some (Fin 10), history = None, unit = ''US$/t'',
                                    source_note = ''manual''\<rparr>)]
        [] True =
      Inr [\<lparr>Market = ''Australia ACCU (A$)'', Unit = ''US$/t'', Last_Price_local = Some (Fin 10),
            Last_Price_USD = None, Source = ''manual'',
            Note = ''(conversion not available - add USD/AUD pair)''\<rparr>]"
  by (simp add: compliance_summary_table_def compliance_row_of_def convert_price_def pound_tag_def)

text \<open>
  Claim C10, amended. With the flag true, a record with a price whose unit contains none
  of the tags \<^verbatim>\<open>NZ$\<close>, \<^verbatim>\<open>A$\<close>, \<^verbatim>\<open>KRW\<close>, \<^verbatim>\<open>RMB\<close>, \<^verbatim>\<open>CNY\<close> and the pound tag, and
  whose name does not contain \<^verbatim>\<open>A$\<close>, never raises, and in every table that is returned
  its row has no converted USD price and the empty note.
\<close>

theorem untagged_unit_bypasses_conversion:
  assumes "compliance_summary_table fx_data d fx_df_for_conv True = Inr rows"
    and "i < length d" and "d ! i = (name, meta)" and "price meta = Some p"
    and "\<not> str_in ''NZ$'' (unit meta)" and "\<not> str_in ''A$'' (unit meta)"
    and "\<not> str_in ''KRW'' (unit meta)" and "\<not> str_in ''RMB'' (unit meta)"
    and "\<not> str_in ''CNY'' (unit meta)" and "\<not> str_in pound_tag (unit meta)"
    and "\<not> str_in ''A$'' name"
  shows "compliance_row_of fx_data True name meta =
           Inr \<lparr>Market = name, Unit = unit meta, Last_Price_local = Some p,
                Last_Price_USD = None, Source = source_note meta, Note = ''''\<rparr>
       \<and> rows ! i = \<lparr>Market = name, Unit = unit meta, Last_Price_local = Some p,
                Last_Price_USD = None, Source = source_note meta, Note = ''''\<rparr>"
proof -
  have "convert_price fx_data name (unit meta) p = Inr (None, '''')"
    using assms(5-11) by (intro convert_price_untagged)
  with assms(4) have row: "compliance_row_of fx_data True name meta =
      Inr \<lparr>Market = name, Unit = unit meta, Last_Price_local = Some p,
           Last_Price_USD = None, Source = source_note meta, Note = ''''\<rparr>"
    by (simp add: compliance_row_of_def)
  from compliance_table_rows(2) [OF assms(1-3)] row show ?thesis by simp
qed

theorem untagged_unit_bypasses_conversion_witness:
  "compliance_summary_table []
     [(''RGGI'', \<lparr>price = Some (Fin 15), history = None, unit = ''US$/t'', source_note = ''manual''\<rparr>)]
     [] True =
   Inr [\<lparr>Market = ''RGGI'', Unit = ''US$/t'', Last_Price_local = Some (Fin 15),
         Last_Price_USD = None, Source = ''manual'', Note = ''''\<rparr>]
   \<and> \<not> str_in ''NZ$'' ''US$/t'' \<and> \<not> str_in ''A$'' ''US$/t'' \<and> \<not> str_in ''KRW'' ''US$/t''
   \<and> \<not> str_in ''RMB'' ''US$/t'' \<and> \<not> str_in ''CNY'' ''US$/t'' \<and> \<not> str_in pound_tag ''US$/t''
   \<and> \<not> str_in ''A$'' ''RGGI''
   \<and> [\<lparr>Market = ''RGGI'', Unit = ''US$/t'', Last_Price_local = Some (Fin 15),
         Last_Price_USD = None, Source = ''manual'', Note = ''''\<rparr>] ! 0 =
       \<lparr>Market = ''RGGI'', Unit = ''US$/t'', Last_Price_local = Some (Fin 15),
         Last_Price_USD = None, Source = ''manual'', Note = ''''\<rparr>"
  using untagged_unit_bypasses_conversion
    [of "[]" "[(''RGGI'', \<lparr>price = Some (Fin 15), history = None, unit = ''US$/t'', source_note = ''manual''\<rparr>)]"
        "[]" "[\<lparr>Market = ''RGGI'', Unit = ''US$/t'', Last_Price_local = Some (Fin 15),
                Last_Price_USD = None, Source = ''manual'', Note = ''''\<rparr>]"
        0 "''RGGI''"
        "\<lparr>price = Some (Fin 15), history = None, unit = ''US$/t'', source_note = ''manual''\<rparr>" "Fin 15"]
  by (simp add: compliance_summary_table_def compliance_row_of_def convert_price_def pound_tag_def)

text \<open>
  Claim C3 at the record of price 80 and unit pound tag \<^verbatim>\<open>/t\<close>, with the flag true, when
  GBP/USD is not a key of \<^verbatim>\<open>fx_data\<close> and when its value is \<^verbatim>\<open>None\<close>: the converted
  price is absent and the note is the empty string, where the claim expects a note that
  names the missing pair (as the branches for \<^verbatim>\<open>NZ$\<close>, \<^verbatim>\<open>A$\<close> and \<^verbatim>\<open>KRW\<close> give).
\<close>

theorem missing_gbp_pair_leaves_note_empty:
  "compliance_summary_table []
     [(''UK ETS'', \<lparr>price = Some (Fin 80), history = None, unit = pound_tag @ ''/t'',
                    source_note = ''manual''\<rparr>)]
     [] True =
   Inr [\<lparr>Market = ''UK ETS'', Unit = pound_tag @ ''/t'', Last_Price_local = Some (Fin 80),
         Last_Price_USD = None, Source = ''manual'', Note = ''''\<rparr>]
   \<and> compliance_summary_table [(''GBP/USD'', None)]
     [(''UK ETS'', \<lparr>price = Some (Fin 80), history = None, unit = pound_tag @ ''/t'',
                    source_note = ''manual''\<rparr>)]
     [] True =
   Inr [\<lparr>Market = ''UK ETS'', Unit = pound_tag @ ''/t'', Last_Price_local = Some (Fin 80),
         Last_Price_USD = None, Source = ''manual'', Note = ''''\<rparr>]
   \<and> compliance_summary_table []
     [(''New Zealand (NZ ETS)'', \<lparr>price = Some (Fin 80), history = None, unit = ''NZ$/t'',
                    source_note = ''manual''\<rparr>)]
     [] True =
   Inr [\<lparr>Market = ''New Zealand (NZ ETS)'', Unit = ''NZ$/t'', Last_Price_local = Some (Fin 80),
         Last_Price_USD = None, Source = ''manual'',
         Note = ''(conversion not available - add USD/NZD pair)''\<rparr>]"
  by (simp add: compliance_summary_table_def compliance_row_of_def convert_price_def
      convert_with_def pound_tag_def)




text \<open>
  Claim C7 at the record of price 80 and unit pound tag \<^verbatim>\<open>/t\<close>, with the flag true, when
  the last row of the GBP/USD frame has a NaN close (and a volume, so that
  \<^verbatim>\<open>dropna(how="all")\<close> keeps it): \<^verbatim>\<open>converted\<close> is NaN, which is not \<^verbatim>\<open>None\<close>, so
  line 214 stores \<^verbatim>\<open>round(nan, 4)\<close>, that is NaN, with the note
  \<^verbatim>\<open>converted using GBP/USD\<close>. In the returned frame NaN is the missing value and is
  rendered blank: the row has no converted price and a note of success, where the claim
  expects a converted price whenever the note says which pair was used.
\<close>

theorem nan_close_gives_success_note_without_price:
  "compliance_summary_table
     [(''GBP/USD'', Some \<lparr>has_volume = True,
         bars = [\<lparr>close = Fin (5 / 4), volume = Fin 0\<rparr>, \<lparr>close = NaN, volume = Fin 0\<rparr>]\<rparr>)]
     [(''UK ETS'', \<lparr>price = Some (Fin 80), history = None, unit = pound_tag @ ''/t'',
                    source_note = ''manual''\<rparr>)]
     [] True =
   Inr [\<lparr>Market = ''UK ETS'', Unit = pound_tag @ ''/t'', Last_Price_local = Some (Fin 80),
         Last_Price_USD = Some NaN, Source = ''manual'', Note = ''converted using GBP/USD''\<rparr>]
   \<and> pd_isna (Some NaN) \<and> float_cell (Some NaN) = Blank"
  by (simp add: compliance_summary_table_def compliance_row_of_def convert_price_def
      convert_with_def pound_tag_def py_mul_def py_round_def pd_isna_def float_cell_def)

subsection \<open>Summary rows\<close>






subsection \<open>Fetched dicts\<close>

text \<open>
  The names recorded by the fetch loop, for a catalog without duplicate names: the
  instruments with a ticker whose download raised or returned a frame with rows, in
  catalog order. No download aborts the loop.
\<close>

lemma fetch_loop_keys:
  assumes "distinct (map fst tickers)" and "set (map fst tickers) \<inter> set (map fst results) = {}"
  shows "map fst (fetch_loop dl dropna period tickers results) =
           map fst results @
           map fst (filter (\<lambda>(name, tick).
              case tick of None \<Rightarrow> False
              | Some t \<Rightarrow> (case dl t period of Raises e \<Rightarrow> True | Returns None \<Rightarrow> False
                          | Returns (Some df) \<Rightarrow> \<not> df_empty df)) tickers)"
  using assms
proof (induction tickers arbitrary: results)
  case Nil
  then show ?case by simp
next
  case (Cons a tickers)
  obtain name tick where a: "a = (name, tick)" by (cases a)
  from Cons.prems a have fresh: "name \<notin> set (map fst results)" and dist: "distinct (map fst tickers)"
    and new: "name \<notin> set (map fst tickers)"
    and disj: "set (map fst tickers) \<inter> set (map fst results) = {}"
    by auto
  have disj': "set (map fst tickers) \<inter> set (map fst (AList.update name v results)) = {}" for v
    using disj new fresh by (auto simp: update_keys)
  have keys: "map fst (AList.update name v results) = map fst results @ [name]" for v
    using fresh by (simp add: update_keys)
  show ?case
  proof (cases tick)
    case None
    with a Cons.IH [OF dist disj] show ?thesis by simp
  next
    case (Some t)
    show ?thesis
    proof (cases "dl t period")
      case (Raises e)
      with a Some Cons.IH [OF dist disj'] keys show ?thesis by simp
    next
      case (Returns dfo)
      show ?thesis
      proof (cases dfo)
        case None
        with a Some Returns Cons.IH [OF dist disj] show ?thesis by simp
      next
        case (Some df)
        with a \<open>tick = Some t\<close> Returns Cons.IH [OF dist disj] Cons.IH [OF dist disj'] keys
        show ?thesis by simp
      qed
    qed
  qed
qed

lemma fetch_yfinance_keys:
  assumes "distinct (map fst tickers)"
  shows "map fst (fetch_yfinance dl dropna tickers period_days) =
           map fst (filter (\<lambda>(name, tick).
              case tick of None \<Rightarrow> False
              | Some t \<Rightarrow> (case dl t period_days of Raises e \<Rightarrow> True | Returns None \<Rightarrow> False
                          | Returns (Some df) \<Rightarrow> \<not> df_empty df)) tickers)"
  using fetch_loop_keys [OF assms, of "[]" dl dropna period_days]
  by (simp add: fetch_yfinance_def)

text \<open>The compliance loop of \<^verbatim>\<open>fetch_all_data\<close> records every market, in catalog order.\<close>

lemma compliance_fetch_loop_keys:
  assumes "distinct (map fst markets)" and "set (map fst markets) \<inter> set (map fst acc) = {}"
  shows "map fst (compliance_fetch_loop dl days markets acc) = map fst acc @ map fst markets"
  using assms
proof (induction markets arbitrary: acc)
  case Nil
  then show ?case by simp
next
  case (Cons a markets)
  obtain name meta where a: "a = (name, meta)" by (cases a)
  from Cons.prems a have fresh: "name \<notin> set (map fst acc)" and dist: "distinct (map fst markets)"
    and new: "name \<notin> set (map fst markets)"
    and disj: "set (map fst markets) \<inter> set (map fst acc) = {}"
    by auto
  have "set (map fst markets) \<inter> set (map fst (AList.update name v acc)) = {}" for v
    using disj new fresh by (auto simp: update_keys)
  from Cons.IH [OF dist this] a fresh show ?case
    by (simp add: update_keys)
qed

lemma distinct_markets: "distinct (map fst compliance_markets)"
  by (simp add: compliance_markets_def)

lemma compliance_data_keys:
  "map fst (snd (snd (fetch_all_data dl dropna days))) = map fst compliance_markets"
  using compliance_fetch_loop_keys [OF distinct_markets, of "[]" dl days]
  by (simp add: fetch_all_data_def)


text \<open>
  Claim C2 at a catalog of three instruments, all with a ticker, where the download of
  the first returns an empty frame, that of the second raises and that of the third
  returns one row: the returned dict has the second (with \<^verbatim>\<open>None\<close>) and the third, in
  catalog order, and no entry for the first, where the claim expects the first recorded
  with a "no data" value.
\<close>

theorem fetch_omits_empty_download:
  "fetch_yfinance
     (\<lambda>t p. if t = ''GC=F'' then Returns (Some \<lparr>has_volume = True, bars = []\<rparr>)
             else if t = ''SI=F'' then Raises ''timed out''
             else Returns (Some \<lparr>has_volume = True, bars = [\<lparr>close = Fin 4, volume = Fin 7\<rparr>]\<rparr>))
     (\<lambda>df. df)
     [(''Gold'', Some ''GC=F''), (''Silver'', Some ''SI=F''), (''Copper'', Some ''HG=F'')] 30 =
   [(''Silver'', None),
    (''Copper'', Some \<lparr>has_volume = True, bars = [\<lparr>close = Fin 4, volume = Fin 7\<rparr>]\<rparr>)]"
  by (simp add: fetch_yfinance_def df_empty_def)

text \<open>
  Claim C1 at the FX catalog, when the download of \<^verbatim>\<open>GBPUSD=X\<close> returns an empty frame
  and every other download returns one row: the catalog declares nine instruments, the
  summary built from the fetched dict is returned with eight rows and none for GBP/USD.
\<close>

theorem summary_row_dropped_on_empty_download:
  "map fst currencies =
     [''GBP/USD'', ''EUR/USD'', ''USD/BRL'', ''USD/CNY'', ''USD/JPY'', ''USD/NOK'', ''USD/CAD'',
      ''USD/AUD'', ''CHF/USD'']
   \<and> map_sum (\<lambda>e. e) (map Asset) (summary_from_yf_dict (fetch_yfinance
        (\<lambda>t p. if t = ''GBPUSD=X'' then Returns (Some \<lparr>has_volume = True, bars = []\<rparr>)
                else Returns (Some \<lparr>has_volume = True, bars = [\<lparr>close = Fin 1, volume = Fin 0\<rparr>]\<rparr>))
        (\<lambda>df. df) currencies 30)) =
     Inr [''EUR/USD'', ''USD/BRL'', ''USD/CNY'', ''USD/JPY'', ''USD/NOK'', ''USD/CAD'', ''USD/AUD'',
          ''CHF/USD'']"
proof -
  have row: "summary_row_of name
      (Some \<lparr>has_volume = True, bars = [\<lparr>close = Fin 1, volume = Fin 0\<rparr>]\<rparr>) =
      Inr \<lparr>Asset = name, Last_Price = Some (Fin 1), Change_pct = Some (Fin 0), Volume = Some 0\<rparr>"
    for name
    by (simp add: summary_row_of_def df_empty_def pct_change_def float_eval)
  show ?thesis
    by (simp add: currencies_def fetch_yfinance_def df_empty_def summary_from_yf_dict_def row)
qed

subsection \<open>Snapshot report\<close>

text \<open>
  What \<^verbatim>\<open>add_series_page\<close> adds to the document: chart pages only, each of a series of
  the dict that has at least one row, and no more than \<open>max_plots - plotted\<close> of them.
\<close>

lemma add_series_loop_pages:
  "\<exists>extra. snd (add_series_loop t m d k pdf) = pdf @ extra
     \<and> (k < m \<longrightarrow> length extra \<le> m - k)
     \<and> (\<forall>p\<in>set extra. \<exists>name df. p = ChartPage t name (map close (bars df))
            \<and> bars df \<noteq> [] \<and> (name, Some df) \<in> set d)"
proof (induction d arbitrary: k pdf)
  case Nil
  then show ?case by simp
next
  case (Cons a d)
  obtain name dfo where a: "a = (name, dfo)" by (cases a)
  show ?case
  proof (cases "\<exists>df. dfo = Some df \<and> bars df \<noteq> []")
    case False
    then have skip: "add_series_loop t m (a # d) k pdf = add_series_loop t m d k pdf"
      using a by (cases dfo) (auto simp: df_empty_def)
    from Cons.IH [of k pdf] show ?thesis
      unfolding skip by fastforce
  next
    case True
    then obtain df where df: "dfo = Some df" "bars df \<noteq> []" by blast
    let ?page = "ChartPage t name (map close (bars df))"
    show ?thesis
    proof (cases "m \<le> k + 1")
      case True
      with a df have "snd (add_series_loop t m (a # d) k pdf) = pdf @ [?page]"
        by (simp add: df_empty_def Let_def)
      with True a df show ?thesis
        by (intro exI [of _ "[?page]"]) auto
    next
      case False
      with a df have step: "add_series_loop t m (a # d) k pdf =
          add_series_loop t m d (k + 1) (pdf @ [?page])"
        by (simp add: df_empty_def Let_def)
      from Cons.IH [of "k + 1" "pdf @ [?page]"] obtain extra where
        extra: "snd (add_series_loop t m d (k + 1) (pdf @ [?page])) = (pdf @ [?page]) @ extra"
        "k + 1 < m \<longrightarrow> length extra \<le> m - (k + 1)"
        "\<forall>p\<in>set extra. \<exists>name df. p = ChartPage t name (map close (bars df))
            \<and> bars df \<noteq> [] \<and> (name, Some df) \<in> set d"
        by blast
      have "\<forall>p\<in>set (?page # extra). \<exists>name df. p = ChartPage t name (map close (bars df))
            \<and> bars df \<noteq> [] \<and> (name, Some df) \<in> set (a # d)"
        using extra(3) a df by fastforce
      with extra(1,2) False show ?thesis
        unfolding step by (intro exI [of _ "?page # extra"]) auto
    qed
  qed
qed

text \<open>A dict in which every series is absent or empty adds nothing.\<close>

lemma add_series_loop_absent:
  "(\<forall>(n, v)\<in>set d. v = None \<or> (\<exists>df. v = Some df \<and> bars df = [])) \<Longrightarrow>
     add_series_loop t m d k pdf = (k, pdf)"
  by (induction d arbitrary: k pdf) (auto simp: df_empty_def)

lemma set_update_subset: "set (AList.update k v al) \<subseteq> insert (k, v) (set al)"
  by (induction al) auto

lemma hist_loop_entries:
  "(n, v) \<in> set (hist_loop c h) \<Longrightarrow>
     (n, v) \<in> set h \<or> (\<exists>m df. (n, m) \<in> set c \<and> history m = Some df \<and> v = Some df)"
proof (induction c arbitrary: h)
  case Nil
  then show ?case by simp
next
  case (Cons a c)
  obtain name meta where a: "a = (name, meta)" by (cases a)
  show ?case
  proof (cases "\<exists>df. history meta = Some df \<and> \<not> df_empty df")
    case False
    with Cons.prems a have "(n, v) \<in> set (hist_loop c h)"
      by (cases "history meta") auto
    from Cons.IH [OF this] show ?thesis by auto
  next
    case True
    then obtain df where df: "history meta = Some df" "\<not> df_empty df" by blast
    with Cons.prems a have "(n, v) \<in> set (hist_loop c (AList.update name (Some df) h))"
      by simp
    from Cons.IH [OF this] set_update_subset [of name "Some df" h] a df show ?thesis
      by auto
  qed
qed

lemma hist_loop_absent:
  "(\<forall>(n, m)\<in>set c. history m = None \<or> (\<exists>df. history m = Some df \<and> bars df = [])) \<Longrightarrow>
     hist_loop c h = h"
  by (induction c arbitrary: h) (auto simp: df_empty_def)



text \<open>
  The pages after the tables: at most 18 trend pages, each the chart of a series with at
  least one row taken from the commodity dict, the FX dict or the history of a compliance
  record, then the notes page.
\<close>

lemma trend_and_notes_document:
  "\<exists>trend.
     trend_and_notes pdf3 commod_data fx_data compliance_data =
       pdf3 @ trend @ [NotesPage ''Notes & Data Sources'' (map (\<lambda>n. ''- '' @ n) notes_text)]
     \<and> length trend \<le> 18
     \<and> (\<forall>p\<in>set trend. \<exists>t name df. p = ChartPage t name (map close (bars df)) \<and> bars df \<noteq> []
          \<and> ((name, Some df) \<in> set commod_data \<or> (name, Some df) \<in> set fx_data
             \<or> (\<exists>m. (name, m) \<in> set compliance_data \<and> history m = Some df)))
     \<and> ((\<forall>(n, v)\<in>set commod_data. v = None \<or> (\<exists>df. v = Some df \<and> bars df = []))
        \<and> (\<forall>(n, v)\<in>set fx_data. v = None \<or> (\<exists>df. v = Some df \<and> bars df = []))
        \<and> (\<forall>(n, m)\<in>set compliance_data.
              history m = None \<or> (\<exists>df. history m = Some df \<and> bars df = []))
        \<longrightarrow> trend = [])"
proof -
  let ?pdf3 = "pdf3"
  let ?absent = "\<lambda>v. v = None \<or> (\<exists>df. v = Some df \<and> bars df = [])"
  let ?hist = "hist_loop compliance_data []"
  from add_series_loop_pages [of "''Commodities Trend''" 6 commod_data 0 ?pdf3]
  obtain e1 where e1: "snd (add_series_page ''Commodities Trend'' commod_data 6 ?pdf3) = ?pdf3 @ e1"
    "length e1 \<le> 6"
    "\<forall>p\<in>set e1. \<exists>name df. p = ChartPage ''Commodities Trend'' name (map close (bars df))
        \<and> bars df \<noteq> [] \<and> (name, Some df) \<in> set commod_data"
    unfolding add_series_page_def by auto
  from add_series_loop_pages [of "''FX Trend''" 6 fx_data 0 "?pdf3 @ e1"]
  obtain e2 where e2: "snd (add_series_page ''FX Trend'' fx_data 6 (?pdf3 @ e1)) = (?pdf3 @ e1) @ e2"
    "length e2 \<le> 6"
    "\<forall>p\<in>set e2. \<exists>name df. p = ChartPage ''FX Trend'' name (map close (bars df))
        \<and> bars df \<noteq> [] \<and> (name, Some df) \<in> set fx_data"
    unfolding add_series_page_def by auto
  from add_series_loop_pages [of "''Compliance Market Trends''" 6 ?hist 0 "(?pdf3 @ e1) @ e2"]
  obtain e3' where e3': "snd (add_series_page ''Compliance Market Trends'' ?hist 6 ((?pdf3 @ e1) @ e2))
        = ((?pdf3 @ e1) @ e2) @ e3'"
    "length e3' \<le> 6"
    "\<forall>p\<in>set e3'. \<exists>name df. p = ChartPage ''Compliance Market Trends'' name (map close (bars df))
        \<and> bars df \<noteq> [] \<and> (name, Some df) \<in> set ?hist"
    unfolding add_series_page_def by auto
  define e3 where "e3 = (if ?hist \<noteq> [] then e3' else [])"
  have doc: "trend_and_notes pdf3 commod_data fx_data compliance_data =
      ?pdf3 @ (e1 @ e2 @ e3) @ [NotesPage ''Notes & Data Sources'' (map (\<lambda>n. ''- '' @ n) notes_text)]"
    using e1(1) e2(1) e3'(1) by (simp add: trend_and_notes_def Let_def e3_def)
  have len: "length (e1 @ e2 @ e3) \<le> 18"
    using e1(2) e2(2) e3'(2) by (simp add: e3_def)
  have e3_pages: "\<forall>p\<in>set e3. \<exists>name df. p = ChartPage ''Compliance Market Trends'' name (map close (bars df))
        \<and> bars df \<noteq> [] \<and> (\<exists>m. (name, m) \<in> set compliance_data \<and> history m = Some df)"
  proof
    fix p assume "p \<in> set e3"
    then have "p \<in> set e3'" by (simp add: e3_def split: if_splits)
    with e3'(3) obtain name df where p: "p = ChartPage ''Compliance Market Trends'' name (map close (bars df))"
      "bars df \<noteq> []" "(name, Some df) \<in> set ?hist"
      by blast
    from hist_loop_entries [OF p(3)] have "\<exists>m. (name, m) \<in> set compliance_data \<and> history m = Some df"
      by auto
    with p(1,2) show "\<exists>name df. p = ChartPage ''Compliance Market Trends'' name (map close (bars df))
        \<and> bars df \<noteq> [] \<and> (\<exists>m. (name, m) \<in> set compliance_data \<and> history m = Some df)"
      by blast
  qed
  have pages: "\<forall>p\<in>set (e1 @ e2 @ e3). \<exists>t name df. p = ChartPage t name (map close (bars df)) \<and> bars df \<noteq> []
          \<and> ((name, Some df) \<in> set commod_data \<or> (name, Some df) \<in> set fx_data
             \<or> (\<exists>m. (name, m) \<in> set compliance_data \<and> history m = Some df))"
  proof
    fix p assume "p \<in> set (e1 @ e2 @ e3)"
    then consider "p \<in> set e1" | "p \<in> set e2" | "p \<in> set e3" by auto
    then show "\<exists>t name df. p = ChartPage t name (map close (bars df)) \<and> bars df \<noteq> []
          \<and> ((name, Some df) \<in> set commod_data \<or> (name, Some df) \<in> set fx_data
             \<or> (\<exists>m. (name, m) \<in> set compliance_data \<and> history m = Some df))"
    proof cases
      case 1
      with e1(3) show ?thesis by blast
    next
      case 2
      with e2(3) show ?thesis by blast
    next
      case 3
      with e3_pages show ?thesis by blast
    qed
  qed
  have absent: "(\<forall>(n, v)\<in>set commod_data. ?absent v) \<and> (\<forall>(n, v)\<in>set fx_data. ?absent v)
        \<and> (\<forall>(n, m)\<in>set compliance_data. ?absent (history m)) \<longrightarrow> e1 @ e2 @ e3 = []"
  proof
    assume all: "(\<forall>(n, v)\<in>set commod_data. ?absent v) \<and> (\<forall>(n, v)\<in>set fx_data. ?absent v)
        \<and> (\<forall>(n, m)\<in>set compliance_data. ?absent (history m))"
    from all have "e1 = []"
      using e1(1) add_series_loop_absent [of commod_data "''Commodities Trend''" 6 0 ?pdf3]
      by (simp add: add_series_page_def)
    moreover from all have "e2 = []"
      using e2(1) add_series_loop_absent [of fx_data "''FX Trend''" 6 0 "?pdf3 @ e1"]
      by (simp add: add_series_page_def)
    moreover from all have "?hist = []"
      using hist_loop_absent [of compliance_data "[]"] by simp
    then have "e3 = []" by (simp add: e3_def)
    ultimately show "e1 @ e2 @ e3 = []" by simp
  qed
  from doc len pages absent show ?thesis
    by (intro exI [of _ "e1 @ e2 @ e3"] conjI)
qed

text \<open>
  The only way \<^verbatim>\<open>generate_pdf_snapshot\<close> raises: one of the three tables has no rows, and
  the exception is the \<^verbatim>\<open>IndexError\<close> of \<^verbatim>\<open>ax.table\<close>. A table with rows never raises.
\<close>

lemma ax_table_Inl: "(ax_table title cells cols = Inl e) = (e = IndexError \<and> cells = [])"
  by (cases cells) (auto simp: ax_table_def)

lemma ax_table_Inr: "cells \<noteq> [] \<Longrightarrow> ax_table title cells cols = Inr (TablePage title cols cells)"
  by (cases cells) (auto simp: ax_table_def)

lemma ax_table_Inr_iff:
  "(ax_table title cells cols = Inr p) = (cells \<noteq> [] \<and> p = TablePage title cols cells)"
  by (cases cells) (auto simp: ax_table_def)

lemma generate_pdf_snapshot_raises_iff:
  "(generate_pdf_snapshot commod_table fx_table comp_table commod_data fx_data compliance_data
      days now = Inl e) =
   (e = IndexError \<and> (commod_table = [] \<or> fx_table = [] \<or> comp_table = []))"
  by (auto simp: generate_pdf_snapshot_def Let_def ax_table_Inl ax_table_Inr_iff
      summary_values_def compliance_values_def split: sum.splits)

text \<open>
  When each of the three tables has at least one row, the document is returned: the
  title page, the three table pages, at most 18 trend pages, each the chart of a series
  with at least one row, and the notes page; when every series is absent or empty there
  is no trend page.
\<close>

lemma snapshot_document_of_tables_with_rows:
  assumes "commod_table \<noteq> []" and "fx_table \<noteq> []" and "comp_table \<noteq> []"
  shows "\<exists>trend.
     generate_pdf_snapshot commod_table fx_table comp_table commod_data fx_data compliance_data days now =
       Inr ([TitlePage ''Commodities, FX & Compliance Carbon - Daily Snapshot'' now days,
             TablePage ''Commodities Summary'' (summary_columns commod_table) (summary_values commod_table),
             TablePage ''FX Summary'' (summary_columns fx_table) (summary_values fx_table),
             TablePage ''Compliance Carbon Markets Summary'' (compliance_columns comp_table)
               (compliance_values comp_table)]
            @ trend @ [NotesPage ''Notes & Data Sources'' (map (\<lambda>n. ''- '' @ n) notes_text)])
     \<and> length trend \<le> 18
     \<and> (\<forall>p\<in>set trend. \<exists>t name df. p = ChartPage t name (map close (bars df)) \<and> bars df \<noteq> []
          \<and> ((name, Some df) \<in> set commod_data \<or> (name, Some df) \<in> set fx_data
             \<or> (\<exists>m. (name, m) \<in> set compliance_data \<and> history m = Some df)))
     \<and> ((\<forall>(n, v)\<in>set commod_data. v = None \<or> (\<exists>df. v = Some df \<and> bars df = []))
        \<and> (\<forall>(n, v)\<in>set fx_data. v = None \<or> (\<exists>df. v = Some df \<and> bars df = []))
        \<and> (\<forall>(n, m)\<in>set compliance_data.
              history m = None \<or> (\<exists>df. history m = Some df \<and> bars df = []))
        \<longrightarrow> trend = [])"
proof -
  let ?pdf3 = "[TitlePage ''Commodities, FX & Compliance Carbon - Daily Snapshot'' now days,
        TablePage ''Commodities Summary'' (summary_columns commod_table) (summary_values commod_table),
        TablePage ''FX Summary'' (summary_columns fx_table) (summary_values fx_table),
        TablePage ''Compliance Carbon Markets Summary'' (compliance_columns comp_table)
          (compliance_values comp_table)]"
  have "generate_pdf_snapshot commod_table fx_table comp_table commod_data fx_data
      compliance_data days now = Inr (trend_and_notes ?pdf3 commod_data fx_data compliance_data)"
    using assms
    by (simp add: generate_pdf_snapshot_def Let_def ax_table_Inr summary_values_def
        compliance_values_def)
  with trend_and_notes_document [of ?pdf3 commod_data fx_data compliance_data]
  show ?thesis by auto
qed

text \<open>
  Claim C6 when every download returns an empty frame (what \<^verbatim>\<open>yf.download\<close> returns
  when a symbol is unknown or the network is down): \<^verbatim>\<open>fetch_yfinance\<close> returns the empty
  dict for the commodities and for the FX pairs, their summaries are
  \<^verbatim>\<open>pd.DataFrame([])\<close>, and \<^verbatim>\<open>generate_pdf_snapshot\<close> raises \<^verbatim>\<open>IndexError\<close> at line 312,
  whatever the compliance table, the compliance records, the window and the time stamp
  are; the claim expects the document of five pages.
\<close>

theorem snapshot_raises_when_every_download_is_empty:
  "fetch_yfinance (\<lambda>t p. Returns (Some \<lparr>has_volume = True, bars = []\<rparr>)) (\<lambda>df. df)
     commodities 30 = []
   \<and> fetch_yfinance (\<lambda>t p. Returns (Some \<lparr>has_volume = True, bars = []\<rparr>)) (\<lambda>df. df)
     currencies 30 = []
   \<and> summary_from_yf_dict [] = Inr []
   \<and> generate_pdf_snapshot [] [] comp_table [] [] compliance_data days now = Inl IndexError"
  by (simp add: fetch_yfinance_def commodities_def currencies_def df_empty_def
      summary_from_yf_dict_def generate_pdf_snapshot_def ax_table_def summary_values_def)


end
